theory Spec2Isabelle
  imports Complex_Main
begin

section \<open>Configuration model (kryten\_llm/models/config.py)\<close>

text \<open>
  The pydantic models of the configuration, one record per class. Python's unbounded
  \<open>int\<close> is \<open>int\<close>; a \<open>float\<close> field is idealised as a \<open>real\<close> (no NaN, no
  infinity); \<open>str | None\<close> is a \<open>string option\<close>; the provider dictionary is an
  association list in insertion order.
\<close>

record personality_config =
  character_name :: string
  character_description :: string
  personality_traits :: "string list"
  expertise :: "string list"
  response_style :: string
  name_variations :: "string list"

record llm_provider =
  provider_name :: string
  provider_type :: string
  base_url :: string
  api_key :: string
  model :: string
  max_tokens :: int
  temperature :: real
  timeout_seconds :: int
  fallback :: "string option"

record trigger =
  trigger_ident :: string
  patterns :: "string list"
  probability :: real
  cooldown_seconds :: int
  trigger_context :: string
  trigger_response_style :: "string option"
  max_responses_per_hour :: int
  trigger_priority :: int
  enabled :: bool
  llm_provider_ref :: "string option"

record rate_limits =
  global_max_per_minute :: int
  global_max_per_hour :: int
  global_cooldown_seconds :: int
  user_max_per_hour :: int
  user_cooldown_seconds :: int
  mention_cooldown_seconds :: int
  admin_cooldown_multiplier :: real
  admin_limit_multiplier :: real

record message_processing =
  max_message_length :: int
  split_delay_seconds :: int
  filter_emoji :: bool
  max_emoji_per_message :: int

record testing_config =
  dry_run :: bool
  log_responses :: bool
  log_file :: string
  send_to_chat :: bool

record context_config =
  chat_history_buffer :: int
  include_video_context :: bool
  include_chat_history :: bool

record llm_config =
  personality :: personality_config
  llm_providers :: "(string \<times> llm_provider) list"
  default_provider :: string
  triggers :: "trigger list"
  rate_limits_of :: rate_limits
  message_processing_of :: message_processing
  testing :: testing_config
  context_of :: context_config

text \<open>The field defaults of the source.\<close>

definition default_personality :: personality_config where
  "default_personality =
     \<lparr> character_name = ''CynthiaRothbot'',
       character_description = ''legendary martial artist and actress'',
       personality_traits = [''confident'', ''action-oriented'', ''pithy'', ''martial arts expert''],
       expertise = [''kung fu'', ''action movies'', ''martial arts'', ''B-movies''],
       response_style = ''short and punchy'',
       name_variations = [''cynthia'', ''rothrock'', ''cynthiarothbot''] \<rparr>"

definition default_rate_limits :: rate_limits where
  "default_rate_limits =
     \<lparr> global_max_per_minute = 2, global_max_per_hour = 20, global_cooldown_seconds = 15,
       user_max_per_hour = 5, user_cooldown_seconds = 60, mention_cooldown_seconds = 120,
       admin_cooldown_multiplier = 1 / 2, admin_limit_multiplier = 2 \<rparr>"

definition default_message_processing :: message_processing where
  "default_message_processing =
     \<lparr> max_message_length = 240, split_delay_seconds = 2, filter_emoji = False,
       max_emoji_per_message = 3 \<rparr>"

definition default_testing :: testing_config where
  "default_testing =
     \<lparr> dry_run = False, log_responses = True, log_file = ''logs/llm-responses.jsonl'',
       send_to_chat = True \<rparr>"

definition default_context :: context_config where
  "default_context =
     \<lparr> chat_history_buffer = 30, include_video_context = True, include_chat_history = True \<rparr>"










section \<open>Response formatter (kryten\_llm/components/formatter.py)\<close>

text \<open>
  Strings are \<open>char list\<close>s; the model is exact on ASCII text, where a character is one
  code point. \<open>is_space\<close> is \<open>str.isspace\<close> (and the regex class \<open>\s\<close>) on ASCII:
  tab to carriage return, the four separators 28..31, and the blank.
\<close>

definition is_space :: "char \<Rightarrow> bool" where
  "is_space c = (let n = (of_char c :: nat) in (9 \<le> n \<and> n \<le> 13) \<or> (28 \<le> n \<and> n \<le> 32))"

definition strip :: "string \<Rightarrow> string" where
  "strip s = rev (dropWhile is_space (rev (dropWhile is_space s)))"

definition to_lower :: "char \<Rightarrow> char" where
  "to_lower c = (let n = (of_char c :: nat) in if 65 \<le> n \<and> n \<le> 90 then char_of (n + 32) else c)"

definition lower :: "string \<Rightarrow> string" where
  "lower s = map to_lower s"

text \<open>
  A literal prefix matched without regard to case, as \<open>^\<close> followed by an escaped literal
  under \<open>re.IGNORECASE\<close> does: the rest of the text after the prefix, or \<open>None\<close>.
\<close>

definition strip_prefix_ci :: "string \<Rightarrow> string \<Rightarrow> string option" where
  "strip_prefix_ci pat text =
     (if lower (take (length pat) text) = lower pat then Some (drop (length pat) text) else None)"

text \<open>
  \<open>re.sub(rf"^As {name},?\s*", "", text, flags=re.IGNORECASE)\<close>: the optional comma and
  the run of white space are greedy and never fail, so the match is the longest one.
\<close>

definition sub_as_name_comma :: "string \<Rightarrow> string \<Rightarrow> string" where
  "sub_as_name_comma name text =
     (case strip_prefix_ci (''As '' @ name) text of
        None \<Rightarrow> text
      | Some r \<Rightarrow> dropWhile is_space (case r of c # r' \<Rightarrow> if c = CHR '','' then r' else r | [] \<Rightarrow> r))"

text \<open>
  \<open>re.sub(rf"^As {name}\s+I\s+", "", text, flags=re.IGNORECASE)\<close>: both runs of white
  space need one character at least, and the letter after the first run is \<open>I\<close> or \<open>i\<close>.
\<close>

definition sub_as_name_i :: "string \<Rightarrow> string \<Rightarrow> string" where
  "sub_as_name_i name text =
     (case strip_prefix_ci (''As '' @ name) text of
        None \<Rightarrow> text
      | Some r \<Rightarrow>
          (if takeWhile is_space r = [] then text
           else (case dropWhile is_space r of
                   [] \<Rightarrow> text
                 | c # r2 \<Rightarrow>
                     if to_lower c = CHR ''i'' \<and> takeWhile is_space r2 \<noteq> []
                     then dropWhile is_space r2 else text)))"

definition remove_self_references :: "string \<Rightarrow> string \<Rightarrow> string" where
  "remove_self_references name text = strip (sub_as_name_i name (sub_as_name_comma name text))"

text \<open>
  Python's slices \<open>s[:k]\<close> and \<open>s[k:]\<close> for any integer \<open>k\<close>: a negative \<open>k\<close> counts
  from the end, and is clipped at the start of the string.
\<close>

definition py_take :: "int \<Rightarrow> 'a list \<Rightarrow> 'a list" where
  "py_take k xs = (if 0 \<le> k then take (nat k) xs else take (length xs - nat (- k)) xs)"

definition py_drop :: "int \<Rightarrow> 'a list \<Rightarrow> 'a list" where
  "py_drop k xs = (if 0 \<le> k then drop (nat k) xs else drop (length xs - nat (- k)) xs)"

text \<open>
  The \<open>while remaining:\<close> loop of \<open>_split_response\<close>, with the list of parts built so
  far. The loop need not end (a chunk size of 0 leaves \<open>remaining\<close> as it is), so the
  model counts iterations down from a bound and returns \<open>None\<close> when the bound is used
  up before the loop ends.
\<close>

fun split_loop :: "nat \<Rightarrow> int \<Rightarrow> string list \<Rightarrow> string \<Rightarrow> string list option" where
  "split_loop fuel max_length parts remaining =
     (if remaining = [] then Some parts
      else if int (length remaining) \<le> max_length then
        Some (parts @ [if parts \<noteq> [] then ''...'' @ remaining else remaining])
      else (case fuel of
              0 \<Rightarrow> None
            | Suc fuel' \<Rightarrow>
                (let chunk = py_take (max_length - 3) remaining
                 in split_loop fuel' max_length
                      (parts @ [if parts \<noteq> [] then ''...'' @ chunk @ ''...'' else chunk @ ''...''])
                      (py_drop (max_length - 3) remaining))))"

declare split_loop.simps [simp del]

definition split_response :: "int \<Rightarrow> string \<Rightarrow> string list option" where
  "split_response max_length text = split_loop (length text) max_length [] text"

text \<open>
  \<open>format_response\<close>; the argument is \<open>None\<close> or a string, as the tests call it. The
  result is \<open>None\<close> when the splitting loop does not return.
\<close>

definition format_response :: "llm_config \<Rightarrow> string option \<Rightarrow> string list option" where
  "format_response cfg response =
     (case response of
        None \<Rightarrow> Some []
      | Some r \<Rightarrow>
          if r = [] then Some []
          else (let formatted = strip r in
                if formatted = [] then Some []
                else (let formatted' = remove_self_references (character_name (personality cfg)) formatted in
                      if int (length formatted') \<le> max_message_length (message_processing_of cfg)
                      then Some [formatted']
                      else split_response (max_message_length (message_processing_of cfg)) formatted')))"

section \<open>Prompt builder (kryten\_llm/components/prompt\_builder.py)\<close>

text \<open>\<open>", ".join(xs)\<close>.\<close>

fun join_comma :: "string list \<Rightarrow> string" where
  "join_comma [] = []"
| "join_comma [x] = x"
| "join_comma (x # y # ys) = x @ '', '' @ join_comma (y # ys)"

definition build_system_prompt :: "llm_config \<Rightarrow> string" where
  "build_system_prompt cfg =
     (let p = personality cfg in
      ''You are '' @ character_name p @ '', '' @ character_description p @ ''.'' @ [CHR 0x0A, CHR 0x0A]
      @ ''Personality traits: '' @ join_comma (personality_traits p) @ [CHR 0x0A]
      @ ''Areas of expertise: '' @ join_comma (expertise p) @ [CHR 0x0A, CHR 0x0A]
      @ ''Response style: '' @ response_style p @ [CHR 0x0A, CHR 0x0A]
      @ ''Important rules:'' @ [CHR 0x0A]
      @ ''- Keep responses under 240 characters'' @ [CHR 0x0A]
      @ ''- Stay in character'' @ [CHR 0x0A]
      @ ''- Be natural and conversational'' @ [CHR 0x0A]
      @ ''- Do not use markdown formatting'' @ [CHR 0x0A]
      @ ''- Do not start responses with your character name'')"

text \<open>The trigger context is added when it is neither \<open>None\<close> nor the empty string.\<close>

definition build_user_prompt :: "string \<Rightarrow> string \<Rightarrow> string option \<Rightarrow> string" where
  "build_user_prompt username message trigger_ctx =
     (let prompt = username @ '' says: '' @ message in
      case trigger_ctx of
        None \<Rightarrow> prompt
      | Some c \<Rightarrow> if c = [] then prompt else prompt @ [CHR 0x0A, CHR 0x0A] @ ''Context: '' @ c)"

section \<open>LLM manager (kryten\_llm/components/llm\_manager.py)\<close>

text \<open>
  The value \<open>response.json()\<close> returns: any JSON document, as the Python objects the
  parser builds. An object is the parsed \<open>dict\<close>, an association list with one entry
  per key. A number stands for integers and floats alike: neither has a length, items
  or members, which is all the code asks of a value.
\<close>

datatype json =
    JNull
  | JBool bool
  | JNum int
  | JStr string
  | JList "json list"
  | JObj "(string \<times> json) list"

datatype py_error = KeyError | IndexError | TypeError | AttributeError

text \<open>
  What the HTTP call does, as \<open>generate_response\<close> sees it: \<open>session.post\<close> raises an
  \<open>aiohttp.ClientError\<close>, an \<open>asyncio.TimeoutError\<close> or another exception, or it
  answers with a status and a body; the body is \<open>None\<close> when \<open>response.json()\<close>
  cannot decode it (it is empty, or not JSON), which is a \<open>ValueError\<close> and ends in
  the last handler. \<open>ContentTypeRefused\<close> is an answer whose content type
  \<open>response.json()\<close> refuses: the \<open>aiohttp.ContentTypeError\<close> it raises is a
  \<open>ClientError\<close>. Reading the error text of an answer whose status is not 200 is
  taken to succeed; were it to raise, the handlers would return \<open>None\<close> as well.
\<close>

datatype http_outcome =
    ClientError
  | TimeoutError
  | OtherException
  | Response int "json option"
  | ContentTypeRefused int

datatype log_line =
    ProviderNotFound string
  | ApiError string int
  | NoChoices string
  | NetworkError string
  | Timeout string
  | UnexpectedError string
  | ResponseGenerated string nat

text \<open>\<open>needle in haystack\<close> for two strings.\<close>

fun is_substring :: "string \<Rightarrow> string \<Rightarrow> bool" where
  "is_substring needle [] = (needle = [])"
| "is_substring needle (c # cs) =
     (take (length needle) (c # cs) = needle \<or> is_substring needle cs)"

text \<open>\<open>key in data\<close>: on a dict the keys, on a list the elements, on a string the substrings; the other values are not iterable.\<close>

definition py_contains :: "string \<Rightarrow> json \<Rightarrow> py_error + bool" where
  "py_contains key d =
     (case d of
        JObj kvs \<Rightarrow> Inr (key \<in> set (map fst kvs))
      | JList xs \<Rightarrow> Inr (JStr key \<in> set xs)
      | JStr s \<Rightarrow> Inr (is_substring key s)
      | _ \<Rightarrow> Inl TypeError)"

text \<open>\<open>d[key]\<close> with a string key: defined on a dict only.\<close>

definition py_getitem :: "json \<Rightarrow> string \<Rightarrow> py_error + json" where
  "py_getitem d key =
     (case d of
        JObj kvs \<Rightarrow> (case map_of kvs key of None \<Rightarrow> Inl KeyError | Some v \<Rightarrow> Inr v)
      | _ \<Rightarrow> Inl TypeError)"

text \<open>\<open>d[0]\<close>: the first element of a list, the first character of a string; a parsed dict has string keys only.\<close>

definition py_first :: "json \<Rightarrow> py_error + json" where
  "py_first d =
     (case d of
        JList xs \<Rightarrow> (case xs of [] \<Rightarrow> Inl IndexError | x # _ \<Rightarrow> Inr x)
      | JStr s \<Rightarrow> (case s of [] \<Rightarrow> Inl IndexError | c # _ \<Rightarrow> Inr (JStr [c]))
      | JObj kvs \<Rightarrow> Inl KeyError
      | _ \<Rightarrow> Inl TypeError)"

definition py_len :: "json \<Rightarrow> py_error + nat" where
  "py_len d =
     (case d of
        JStr s \<Rightarrow> Inr (length s)
      | JList xs \<Rightarrow> Inr (length xs)
      | JObj kvs \<Rightarrow> Inr (length kvs)
      | _ \<Rightarrow> Inl TypeError)"

text \<open>Sequencing of steps that may raise.\<close>

definition then_do :: "py_error + 'a \<Rightarrow> ('a \<Rightarrow> py_error + 'b) \<Rightarrow> py_error + 'b" where
  "then_do m f = (case m of Inl e \<Rightarrow> Inl e | Inr v \<Rightarrow> f v)"

text \<open>
  The body of the \<open>try\<close> after the status check, on the parsed document: \<open>Inl\<close> an
  exception raised inside it, \<open>Inr None\<close> the "no choices" return, \<open>Inr (Some c)\<close> the
  content returned. The length of the content is taken for the log line before the
  return.
\<close>

definition extract_content :: "json \<Rightarrow> py_error + json option" where
  "extract_content d =
     then_do (py_contains ''choices'' d) (\<lambda>has.
       if \<not> has then Inr None
       else then_do (py_getitem d ''choices'') (\<lambda>choices.
            then_do (py_len choices) (\<lambda>n.
              if n = 0 then Inr None
              else then_do (py_first choices) (\<lambda>choice.
                   then_do (py_getitem choice ''message'') (\<lambda>message.
                   then_do (py_getitem message ''content'') (\<lambda>content.
                   then_do (py_len content) (\<lambda>_. Inr (Some content))))))))"


text \<open>
  \<open>generate_response\<close>: \<open>dflt\<close> is \<open>self.default_provider\<close>, \<open>http\<close> the outcome of
  the call for the provider used. The result is the log lines written and the value
  returned; every exception of the \<open>try\<close> block ends in one of the three handlers, so
  the function has no raising branch.
\<close>

definition generate_response ::
  "llm_config \<Rightarrow> llm_provider \<Rightarrow> (llm_provider \<Rightarrow> string \<Rightarrow> string \<Rightarrow> http_outcome)
     \<Rightarrow> string \<Rightarrow> string \<Rightarrow> string option \<Rightarrow> log_line list \<times> json option" where
  "generate_response cfg dflt http system_prompt user_prompt pname =
     (case (case pname of
              None \<Rightarrow> Some (dflt, default_provider cfg)
            | Some n \<Rightarrow> map_option (\<lambda>p. (p, n)) (map_of (llm_providers cfg) n)) of
        None \<Rightarrow> ([ProviderNotFound (case pname of Some n \<Rightarrow> n | None \<Rightarrow> [])], None)
      | Some (provider, name) \<Rightarrow>
          (case http provider system_prompt user_prompt of
             ClientError \<Rightarrow> ([NetworkError name], None)
           | TimeoutError \<Rightarrow> ([Timeout name], None)
           | OtherException \<Rightarrow> ([UnexpectedError name], None)
           | ContentTypeRefused status \<Rightarrow>
               if status \<noteq> 200 then ([ApiError name status], None)
               else ([NetworkError name], None)
           | Response status body \<Rightarrow>
               if status \<noteq> 200 then ([ApiError name status], None)
               else (case body of
                       None \<Rightarrow> ([UnexpectedError name], None)
                     | Some d \<Rightarrow>
                         (case extract_content d of
                            Inl e \<Rightarrow> ([UnexpectedError name], None)
                          | Inr None \<Rightarrow> ([NoChoices name], None)
                          | Inr (Some content) \<Rightarrow>
                              ([ResponseGenerated name (case py_len content of Inr n \<Rightarrow> n | Inl _ \<Rightarrow> 0)],
                               Some content)))))"

section \<open>Per-message pipeline (kryten\_llm/service.py)\<close>

text \<open>
  The values the pipeline passes between its collaborators. The filtered message is the
  dictionary the listener returns, with \<open>meta.rank\<close> possibly absent; the trigger
  result and the rate-limit decision carry the fields the pipeline reads.
\<close>

record chat_message =
  username :: string
  msg :: string
  meta_rank :: "int option"

record trigger_result =
  triggered :: bool
  trigger_type :: "string option"
  trigger_name :: "string option"
  cleaned_message :: string
  result_context :: "string option"
  priority :: int

record rate_limit_decision =
  allowed :: bool
  reason :: string
  retry_after :: int

text \<open>
  The collaborators whose code is outside the pipeline, as the functions the pipeline
  calls: the listener's filter (\<open>None\<close> for a message filtered out), the trigger
  engine, the rate limiter's check, and the HTTP call behind the LLM manager. They are
  parameters of the model and are taken to return normally.
\<close>

record 'raw collaborators =
  filter_message :: "'raw \<Rightarrow> chat_message option"
  check_triggers :: "chat_message \<Rightarrow> trigger_result"
  check_rate_limit :: "string \<Rightarrow> trigger_result \<Rightarrow> int \<Rightarrow> rate_limit_decision"
  llm_http :: "llm_provider \<Rightarrow> string \<Rightarrow> string \<Rightarrow> http_outcome"

text \<open>
  What a run of the pipeline does to the outside, in order: log lines, messages sent to
  chat, the pauses between parts, the rate limiter's \<open>record_response\<close> and the response
  logger's \<open>log_response\<close>.
\<close>

datatype event =
    LogTriggered "string option" "string option" string
  | LogRateLimitBlocked string int
  | LlmLog log_line
  | LogError string
  | LogDryRun string
  | SendChat string
  | LogSentPart nat nat
  | Sleep int
  | RecordResponse string trigger_result
  | LogResponse string trigger_result string string "string list" rate_limit_decision bool

datatype status = Completed | Raised py_error | Diverges

text \<open>\<open>not llm_response\<close>: \<open>None\<close>, the empty string, list and dict, zero and \<open>False\<close>.\<close>

definition falsy :: "json option \<Rightarrow> bool" where
  "falsy r =
     (case r of
        None \<Rightarrow> True
      | Some JNull \<Rightarrow> True
      | Some (JBool b) \<Rightarrow> \<not> b
      | Some (JNum n) \<Rightarrow> n = 0
      | Some (JStr s) \<Rightarrow> s = []
      | Some (JList xs) \<Rightarrow> xs = []
      | Some (JObj kvs) \<Rightarrow> kvs = [])"

text \<open>
  Step 7, the loop over \<open>enumerate(formatted_parts)\<close>: \<open>n\<close> is \<open>len(formatted_parts)\<close>,
  \<open>i\<close> the index of the first part of the list, \<open>sent\<close> the flag so far. The result is
  the events of the loop and the flag after it.
\<close>

fun send_parts :: "bool \<Rightarrow> int \<Rightarrow> nat \<Rightarrow> nat \<Rightarrow> string list \<Rightarrow> bool \<Rightarrow> event list \<times> bool" where
  "send_parts dry delay n i [] sent = ([], sent)"
| "send_parts dry delay n i (part # rest) sent =
     (let here = (if dry then [LogDryRun part] else [SendChat part, LogSentPart (i + 1) n]);
          sent' = (if dry then sent else True);
          pause = (if int i < int n - 1 then [Sleep delay] else []);
          (later, sent'') = send_parts dry delay n (i + 1) rest sent'
      in (here @ pause @ later, sent''))"

text \<open>
  \<open>_handle_chat_message\<close>. \<open>dflt\<close> is the default provider the LLM manager holds. A
  response that is not a string and not falsy reaches \<open>response.strip()\<close> in the
  formatter, which raises \<open>AttributeError\<close>; no handler of the pipeline catches it.
\<close>

definition handle_chat_message ::
  "'raw collaborators \<Rightarrow> llm_config \<Rightarrow> llm_provider \<Rightarrow> 'raw \<Rightarrow> event list \<times> status" where
  "handle_chat_message col cfg dflt data =
     (case filter_message col data of
        None \<Rightarrow> ([], Completed)
      | Some filtered \<Rightarrow>
          (let trigger_res = check_triggers col filtered in
           if \<not> triggered trigger_res then ([], Completed)
           else
             (let ev1 = [LogTriggered (trigger_type trigger_res) (trigger_name trigger_res) (username filtered)];
                  rank = (case meta_rank filtered of None \<Rightarrow> 1 | Some r \<Rightarrow> r);
                  decision = check_rate_limit col (username filtered) trigger_res rank
              in
              if \<not> allowed decision then
                (ev1 @ [LogRateLimitBlocked (reason decision) (retry_after decision),
                        LogResponse (username filtered) trigger_res (msg filtered) [] [] decision False],
                 Completed)
              else
                (let system_prompt = build_system_prompt cfg;
                     user_prompt = build_user_prompt (username filtered) (cleaned_message trigger_res)
                                     (result_context trigger_res);
                     (llm_logs, llm_response) =
                        generate_response cfg dflt (llm_http col) system_prompt user_prompt None;
                     ev2 = ev1 @ map LlmLog llm_logs
                 in
                 if falsy llm_response then
                   (ev2 @ [LogError ''LLM failed to generate response'',
                           LogResponse (username filtered) trigger_res (msg filtered) [] [] decision False],
                    Completed)
                 else
                   (case llm_response of
                      Some (JStr text) \<Rightarrow>
                        (case format_response cfg (Some text) of
                           None \<Rightarrow> (ev2, Diverges)
                         | Some formatted_parts \<Rightarrow>
                             if formatted_parts = [] then
                               (ev2 @ [LogError ''Formatter returned empty response'',
                                       LogResponse (username filtered) trigger_res (msg filtered) text []
                                         decision False],
                                Completed)
                             else
                               (let (sends, sent) =
                                      send_parts (dry_run (testing cfg))
                                        (split_delay_seconds (message_processing_of cfg))
                                        (length formatted_parts) 0 formatted_parts False
                                in
                                (ev2 @ sends
                                 @ (if sent \<or> \<not> dry_run (testing cfg)
                                    then [RecordResponse (username filtered) trigger_res] else [])
                                 @ [LogResponse (username filtered) trigger_res (msg filtered) text
                                      formatted_parts decision sent],
                                 Completed)))
                    | _ \<Rightarrow> (ev2, Raised AttributeError))))))"

text \<open>
  The rate limiter's state after a run: \<open>record_response\<close>, here the parameter
  \<open>commit\<close>, is applied once for each \<open>RecordResponse\<close> event, in order.
\<close>

fun rate_limiter_after :: "(string \<Rightarrow> trigger_result \<Rightarrow> 's \<Rightarrow> 's) \<Rightarrow> event list \<Rightarrow> 's \<Rightarrow> 's" where
  "rate_limiter_after commit [] s = s"
| "rate_limiter_after commit (RecordResponse u t # evs) s = rate_limiter_after commit evs (commit u t s)"
| "rate_limiter_after commit (_ # evs) s = rate_limiter_after commit evs s"

section \<open>Context manager (specified in section 4.3; its module is not among the sources)\<close>

text \<open>
  Modelled from the spec: a \<open>ChatHistoryEntry\<close> of section 3, a user name and a
  message. The module \<open>kryten_llm/components/context_manager.py\<close> is missing from the
  sources; only its tests are present.
\<close>

record chat_entry =
  entry_username :: string
  entry_message :: string

text \<open>
  Modelled from the spec: the \<open>VideoSnapshot\<close> of section 3 (the module that declares
  it is missing).
\<close>

record video_snapshot =
  title :: string
  duration_seconds :: int
  media_type :: string
  queued_by :: string
  observed_at :: int

text \<open>
  Modelled from the spec: the media-change event of section 6, whose fields other than
  the title may be absent.
\<close>

record media_event =
  event_title :: string
  event_seconds :: "int option"
  event_type :: "string option"
  event_queueby :: "string option"

text \<open>
  Modelled from the spec: the state the Context Manager owns (sections 3 and 4.3): the
  rolling buffer with its storage capacity, the current video, and the settings it reads
  (the character's own name, the maximum title length). The class itself is missing
  from the sources.
\<close>

record context_manager =
  bot_name :: string
  capacity :: nat
  max_title_length :: nat
  chat_history :: "chat_entry list"
  current_video :: "video_snapshot option"

text \<open>
  Modelled from the spec: a manager as constructed, with an empty buffer and no video
  (the constructor is missing from the sources; \<open>test_initialization\<close> states the same).
\<close>

definition new_context_manager :: "string \<Rightarrow> nat \<Rightarrow> nat \<Rightarrow> context_manager" where
  "new_context_manager name cap max_title =
     \<lparr> bot_name = name, capacity = cap, max_title_length = max_title,
       chat_history = [], current_video = None \<rparr>"

text \<open>
  Modelled from the spec: the last \<open>n\<close> elements of a list, oldest first; what a
  fixed-capacity rolling buffer keeps, and what \<open>snapshot(max_items)\<close> returns of the
  history.
\<close>

definition last_n :: "nat \<Rightarrow> 'a list \<Rightarrow> 'a list" where
  "last_n n xs = drop (length xs - n) xs"

text \<open>
  Modelled from the spec: \<open>record_chat(username, message)\<close> of section 4.3
  (\<open>add_chat_message\<close> in the tests; the method is missing from the sources). It
  appends an entry unless the user name is the character's own name, and the oldest
  entry is evicted on overflow (section 3), as the bounded deque the tests show
  (\<open>chat_history.maxlen\<close>) does.
\<close>

definition record_chat :: "string \<Rightarrow> string \<Rightarrow> context_manager \<Rightarrow> context_manager" where
  "record_chat user message cm =
     (if user = bot_name cm then cm
      else cm \<lparr> chat_history :=
                  last_n (capacity cm)
                    (chat_history cm @ [\<lparr> entry_username = user, entry_message = message \<rparr>]) \<rparr>)"

text \<open>
  Modelled from the spec: \<open>clear_history()\<close> of section 4.3, which empties the buffer
  (the method is missing from the sources).
\<close>

definition clear_history :: "context_manager \<Rightarrow> context_manager" where
  "clear_history cm = cm \<lparr> chat_history := [] \<rparr>"

text \<open>
  Modelled from the spec: \<open>snapshot(max_items)\<close> of section 4.3, the current video and
  the most recent \<open>max_items\<close> entries, oldest first (the method is missing from the
  sources). It reads the state and leaves it as it is.
\<close>

definition snapshot :: "nat \<Rightarrow> context_manager \<Rightarrow> video_snapshot option \<times> chat_entry list" where
  "snapshot max_items cm = (current_video cm, last_n max_items (chat_history cm))"

text \<open>
  Modelled from the spec: \<open>on_media_change(raw_event)\<close> of section 4.3, at time \<open>now\<close>:
  the current video is replaced, the title cut to the maximum length, a missing duration
  is 0 and a missing type or queuer is \<open>unknown\<close> (the method is missing from the
  sources).
\<close>

definition on_media_change :: "media_event \<Rightarrow> int \<Rightarrow> context_manager \<Rightarrow> context_manager" where
  "on_media_change ev now cm =
     cm \<lparr> current_video :=
            Some \<lparr> title = take (max_title_length cm) (event_title ev),
                   duration_seconds = (case event_seconds ev of None \<Rightarrow> 0 | Some n \<Rightarrow> n),
                   media_type = (case event_type ev of None \<Rightarrow> ''unknown'' | Some t \<Rightarrow> t),
                   queued_by = (case event_queueby ev of None \<Rightarrow> ''unknown'' | Some q \<Rightarrow> q),
                   observed_at = now \<rparr> \<rparr>"

text \<open>
  Modelled from the spec: the operations of section 4.3 as values, and a manager run
  through a sequence of them (the class is missing from the sources).
\<close>

datatype cm_operation =
    RecordChat string string
  | ClearHistory
  | Snapshot nat
  | MediaChange media_event int

text \<open>Modelled from the spec: one operation of section 4.3 applied to the manager's state.\<close>

fun apply_operation :: "context_manager \<Rightarrow> cm_operation \<Rightarrow> context_manager" where
  "apply_operation cm (RecordChat user message) = record_chat user message cm"
| "apply_operation cm ClearHistory = clear_history cm"
| "apply_operation cm (Snapshot max_items) = cm"
| "apply_operation cm (MediaChange ev now) = on_media_change ev now cm"

text \<open>Modelled from the spec: a sequence of operations of section 4.3, applied in order.\<close>

definition run_operations :: "cm_operation list \<Rightarrow> context_manager \<Rightarrow> context_manager" where
  "run_operations ops cm = foldl apply_operation cm ops"

text \<open>
  Modelled from the spec: the entries a sequence of operations adds to the history and
  does not clear again, in the order of insertion, with no bound: the messages recorded
  since the last \<open>clear_history\<close>, the character's own left out.
\<close>

fun added_entries :: "string \<Rightarrow> chat_entry list \<Rightarrow> cm_operation \<Rightarrow> chat_entry list" where
  "added_entries name acc (RecordChat user message) =
     (if user = name then acc else acc @ [\<lparr> entry_username = user, entry_message = message \<rparr>])"
| "added_entries name acc ClearHistory = []"
| "added_entries name acc _ = acc"

text \<open>Modelled from the spec: the entries added by a whole sequence of operations.\<close>

definition entries_added :: "string \<Rightarrow> cm_operation list \<Rightarrow> chat_entry list" where
  "entries_added name ops = foldl (added_entries name) [] ops"

text \<open>Modelled from the spec: the insertions of the rolling-buffer example, users and messages numbered from \<open>i\<close>.\<close>

definition numbered_message :: "nat \<Rightarrow> cm_operation" where
  "numbered_message i = RecordChat (''user'' @ [char_of (48 + i)]) (''Message '' @ [char_of (48 + i)])"

section \<open>Service construction (kryten\_llm/service.py, LLMService.\_\_init\_\_)\<close>






section \<open>A configuration with the defaults of the source\<close>

definition local_provider :: llm_provider where
  "local_provider =
     \<lparr> provider_name = ''local'', provider_type = ''openai_compatible'',
       base_url = ''http://localhost:8080/v1'', api_key = ''key'', model = ''m'',
       max_tokens = 256, temperature = 8 / 10, timeout_seconds = 10, fallback = None \<rparr>"

definition example_config :: llm_config where
  "example_config =
     \<lparr> personality = default_personality,
       llm_providers = [(''local'', local_provider)],
       default_provider = ''local'',
       triggers = [],
       rate_limits_of = default_rate_limits,
       message_processing_of = default_message_processing,
       testing = default_testing,
       context_of = default_context \<rparr>"

definition pipeline_events ::
  "'raw collaborators \<Rightarrow> llm_config \<Rightarrow> llm_provider \<Rightarrow> 'raw \<Rightarrow> event list" where
  "pipeline_events col cfg dflt data = fst (handle_chat_message col cfg dflt data)"

definition pipeline_status ::
  "'raw collaborators \<Rightarrow> llm_config \<Rightarrow> llm_provider \<Rightarrow> 'raw \<Rightarrow> status" where
  "pipeline_status col cfg dflt data = snd (handle_chat_message col cfg dflt data)"

text \<open>The rank the pipeline passes to the rate limiter: \<open>meta.rank\<close>, or 1.\<close>

definition rank_of :: "chat_message \<Rightarrow> int" where
  "rank_of m = (case meta_rank m of None \<Rightarrow> 1 | Some r \<Rightarrow> r)"

text \<open>
  Collaborators for examples: every message passes the filter as a mention by
  \<open>bob\<close>, the rate limiter allows it, and the provider answers with the given
  document.
\<close>

definition mention_result :: trigger_result where
  "mention_result =
     \<lparr> triggered = True, trigger_type = Some ''mention'', trigger_name = Some ''cynthia'',
       cleaned_message = ''hey'', result_context = None, priority = 10 \<rparr>"

definition chat_completion :: "json \<Rightarrow> json" where
  "chat_completion content =
     JObj [(''choices'', JList [JObj [(''message'', JObj [(''content'', content)])]])]"

definition example_collaborators :: "http_outcome \<Rightarrow> unit collaborators" where
  "example_collaborators answer =
     \<lparr> filter_message = (\<lambda>_. Some \<lparr> username = ''bob'', msg = ''hey cynthia'', meta_rank = None \<rparr>),
       check_triggers = (\<lambda>_. mention_result),
       check_rate_limit = (\<lambda>_ _ _. \<lparr> allowed = True, reason = ''allowed'', retry_after = 0 \<rparr>),
       llm_http = (\<lambda>_ _ _. answer) \<rparr>"

definition dry_run_config :: llm_config where
  "dry_run_config = example_config \<lparr> testing := default_testing \<lparr> dry_run := True \<rparr> \<rparr>"









section \<open>Theorems: response formatter\<close>

text \<open>
  The splitting loop returns whenever the limit is 4 or more: each round removes
  \<open>max_length - 3\<close> characters, so as many rounds as the text has characters are
  enough, and more rounds change nothing. Every part is then at most three characters
  over the limit.
\<close>

lemma split_loop_done:
  "remaining = [] \<or> int (length remaining) \<le> m \<Longrightarrow>
   split_loop fuel m parts remaining =
     (if remaining = [] then Some parts
      else Some (parts @ [if parts \<noteq> [] then ''...'' @ remaining else remaining]))"
  by (auto simp: split_loop.simps [of fuel])

lemma split_loop_step:
  "remaining \<noteq> [] \<Longrightarrow> \<not> int (length remaining) \<le> m \<Longrightarrow>
   split_loop (Suc fuel) m parts remaining =
     split_loop fuel m
       (parts @ [if parts \<noteq> [] then ''...'' @ py_take (m - 3) remaining @ ''...''
                 else py_take (m - 3) remaining @ ''...''])
       (py_drop (m - 3) remaining)"
  by (simp add: split_loop.simps [of "Suc fuel"] Let_def)

lemma split_loop_out_of_fuel:
  "remaining \<noteq> [] \<Longrightarrow> \<not> int (length remaining) \<le> m \<Longrightarrow> split_loop 0 m parts remaining = None"
  by (simp add: split_loop.simps [of 0])

lemma split_loop_returns:
  "4 \<le> m \<Longrightarrow> length remaining \<le> fuel \<Longrightarrow> \<exists>ps. split_loop fuel m parts remaining = Some ps"
proof (induction fuel arbitrary: parts remaining)
  case 0
  then show ?case by (simp add: split_loop_done)
next
  case (Suc fuel)
  show ?case
  proof (cases "remaining = [] \<or> int (length remaining) \<le> m")
    case True
    then show ?thesis by (simp add: split_loop_done)
  next
    case False
    with Suc.prems have "length (py_drop (m - 3) remaining) \<le> fuel"
      by (auto simp: py_drop_def)
    from Suc.IH [OF Suc.prems(1) this] False show ?thesis
      by (simp add: split_loop_step)
  qed
qed

lemma split_loop_more_fuel:
  "split_loop fuel m parts remaining = Some ps \<Longrightarrow>
   split_loop (fuel + k) m parts remaining = Some ps"
proof (induction fuel arbitrary: parts remaining)
  case 0
  show ?case
  proof (cases "remaining = [] \<or> int (length remaining) \<le> m")
    case True
    with 0 show ?thesis by (simp add: split_loop_done)
  next
    case False
    with 0 show ?thesis by (simp add: split_loop_out_of_fuel)
  qed
next
  case (Suc fuel)
  show ?case
  proof (cases "remaining = [] \<or> int (length remaining) \<le> m")
    case True
    with Suc.prems show ?thesis by (simp add: split_loop_done)
  next
    case False
    with Suc.prems Suc.IH show ?thesis by (simp add: split_loop_step)
  qed
qed

lemma split_loop_lengths:
  "4 \<le> m \<Longrightarrow> split_loop fuel m parts remaining = Some ps \<Longrightarrow>
   \<forall>p \<in> set parts. int (length p) \<le> m + 3 \<Longrightarrow> \<forall>p \<in> set ps. int (length p) \<le> m + 3"
proof (induction fuel arbitrary: parts remaining)
  case 0
  show ?case
  proof (cases "remaining = [] \<or> int (length remaining) \<le> m")
    case True
    with 0 show ?thesis by (auto simp: split_loop_done split: if_splits)
  next
    case False
    with 0 show ?thesis by (simp add: split_loop_out_of_fuel)
  qed
next
  case (Suc fuel)
  show ?case
  proof (cases "remaining = [] \<or> int (length remaining) \<le> m")
    case True
    with Suc.prems show ?thesis by (auto simp: split_loop_done split: if_splits)
  next
    case False
    let ?chunk = "py_take (m - 3) remaining"
    let ?parts = "parts @ [if parts \<noteq> [] then ''...'' @ ?chunk @ ''...'' else ?chunk @ ''...'']"
    from False Suc.prems(2) have run: "split_loop fuel m ?parts (py_drop (m - 3) remaining) = Some ps"
      by (simp add: split_loop_step)
    from Suc.prems(1) have "int (length ?chunk) \<le> m - 3"
      by (auto simp: py_take_def)
    with Suc.prems(3) have "\<forall>p \<in> set ?parts. int (length p) \<le> m + 3"
      by auto
    from Suc.IH [OF Suc.prems(1) run this] show ?thesis .
  qed
qed

lemma format_response_returns:
  assumes "4 \<le> max_message_length (message_processing_of cfg)"
  shows "\<exists>ps. format_response cfg response = Some ps \<and>
              (\<forall>p \<in> set ps. int (length p) \<le> max_message_length (message_processing_of cfg) + 3)"
proof -
  let ?m = "max_message_length (message_processing_of cfg)"
  have split: "\<exists>ps. split_response ?m s = Some ps \<and> (\<forall>p \<in> set ps. int (length p) \<le> ?m + 3)" for s
  proof -
    from split_loop_returns [OF assms, of s "length s" "[]"]
    obtain ps where ps: "split_loop (length s) ?m [] s = Some ps" by auto
    from split_loop_lengths [OF assms ps] have "\<forall>p \<in> set ps. int (length p) \<le> ?m + 3" by simp
    with ps show ?thesis by (auto simp: split_response_def)
  qed
  show ?thesis
    using split
    by (auto simp: format_response_def Let_def split: option.splits)
qed

text \<open>
  Claim C10 (every element of the list returned by \<open>format_response\<close> is at most
  \<open>max_message_length\<close> characters long, continuation indicators included). The code
  cuts chunks of \<open>max_length - 3\<close> characters, which leaves room for one indicator
  only: a middle part carries two, and the last part is cut at \<open>max_length\<close> before its
  leading indicator is added. With the default limit of 240, a response of 500 letters
  is split into parts of 240, 243 and 29 characters.
\<close>

theorem format_response_part_exceeds_max_length:
  "map_option (map length) (format_response example_config (Some (replicate 500 (CHR ''a''))))
     = Some [240, 243, 29]"
  by code_simp

section \<open>Theorems: per-message pipeline\<close>

lemma send_parts_no_record:
  "RecordResponse u t \<notin> set (fst (send_parts dry d n i ps s))"
  by (induction ps arbitrary: i s) (simp_all add: case_prod_beta Let_def)

lemma send_parts_dry_flag: "snd (send_parts True d n i ps s) = s"
  by (induction ps arbitrary: i s) (simp_all add: case_prod_beta Let_def)

lemma send_parts_flag_mono: "s \<Longrightarrow> snd (send_parts dry d n i ps s)"
  by (induction ps arbitrary: i) (simp_all add: case_prod_beta Let_def)

lemma send_parts_sends:
  "ps \<noteq> [] \<Longrightarrow> \<exists>p. SendChat p \<in> set (fst (send_parts False d n i ps s))"
  by (cases ps) (auto simp: case_prod_beta Let_def)

lemma rate_limiter_after_no_record:
  "(\<And>u t. RecordResponse u t \<notin> set evs) \<Longrightarrow> rate_limiter_after commit evs s = s"
  by (induction commit evs s rule: rate_limiter_after.induct) auto

lemma no_record_in_dry_run:
  "dry_run (testing cfg) \<Longrightarrow> RecordResponse u t \<notin> set (pipeline_events col cfg dflt data)"
  unfolding pipeline_events_def handle_chat_message_def Let_def case_prod_beta
  by (auto simp: send_parts_no_record send_parts_dry_flag split: option.splits if_splits json.splits)

lemma record_needs_dispatch:
  assumes "RecordResponse u t \<in> set (pipeline_events col cfg dflt data)"
  shows "\<not> dry_run (testing cfg) \<and> (\<exists>p. SendChat p \<in> set (pipeline_events col cfg dflt data)) \<and>
         (\<exists>f. filter_message col data = Some f \<and> u = username f \<and> t = check_triggers col f \<and>
              triggered (check_triggers col f) \<and>
              allowed (check_rate_limit col (username f) (check_triggers col f) (rank_of f)))"
proof (cases "dry_run (testing cfg)")
  case True
  with assms no_record_in_dry_run [of cfg u t col dflt data] show ?thesis by blast
next
  case False
  with assms send_parts_sends show ?thesis
    unfolding pipeline_events_def handle_chat_message_def rank_of_def Let_def case_prod_beta
    by (fastforce simp: send_parts_no_record split: option.splits if_splits json.splits)
qed

lemma record_position:
  assumes "xs @ [r, l] = pre @ r' # post" and "r' \<notin> set xs" and "r' \<noteq> l"
  shows "pre = xs \<and> r' = r \<and> post = [l]"
  using assms
  by (auto simp: append_eq_append_conv2 Cons_eq_append_conv append_eq_Cons_conv)

lemma record_structure:
  assumes "RecordResponse u t \<in> set (pipeline_events col cfg dflt data)"
  shows "\<exists>xs l. pipeline_events col cfg dflt data = xs @ [RecordResponse u t, l] \<and>
               (\<forall>u' t'. RecordResponse u' t' \<notin> set xs) \<and>
               (\<exists>p. SendChat p \<in> set xs) \<and>
               (\<forall>u' t'. l \<noteq> RecordResponse u' t') \<and> (\<forall>p. l \<noteq> SendChat p)"
proof (cases "dry_run (testing cfg)")
  case True
  with assms no_record_in_dry_run [of cfg u t col dflt data] show ?thesis by blast
next
  case False
  with assms send_parts_sends show ?thesis
    unfolding pipeline_events_def handle_chat_message_def rank_of_def Let_def case_prod_beta
    by (fastforce simp: send_parts_no_record split: option.splits if_splits json.splits)
qed

lemma record_follows_dispatch:
  assumes "pipeline_events col cfg dflt data = pre @ RecordResponse u t # post"
  shows "(\<exists>p. SendChat p \<in> set pre) \<and> (\<forall>p. SendChat p \<notin> set post) \<and>
         (\<forall>u' t'. RecordResponse u' t' \<notin> set pre \<and> RecordResponse u' t' \<notin> set post)"
proof -
  from assms have "RecordResponse u t \<in> set (pipeline_events col cfg dflt data)" by simp
  from record_structure [OF this] obtain xs l where
    shape: "pipeline_events col cfg dflt data = xs @ [RecordResponse u t, l]" and
    before: "\<forall>u' t'. RecordResponse u' t' \<notin> set xs" and
    sent: "\<exists>p. SendChat p \<in> set xs" and
    last: "\<forall>u' t'. l \<noteq> RecordResponse u' t'" "\<forall>p. l \<noteq> SendChat p"
    by blast
  from shape assms have "xs @ [RecordResponse u t, l] = pre @ RecordResponse u t # post" by simp
  from record_position [OF this] before last have "pre = xs \<and> post = [l]" by blast
  with before sent last show ?thesis by auto
qed

text \<open>
  Claim C3 (the rate limiter's commit, \<open>record_response\<close>, is invoked only when a
  response was dispatched: never after a check that returned not-allowed, never in
  dry-run mode, where the rate-limiter state is therefore left as it was). For every
  choice of collaborators, configuration and message: if the run records a response,
  then the service is not in dry-run mode, the run sent a part to chat, and the message
  passed the filter, triggered, and was allowed by the rate limiter's check; wherever
  the record stands in the run, a part was sent to chat before it, no part is sent
  after it, and it is the only record of the run; and in dry-run mode the run records
  nothing, so that any commit function leaves any rate-limiter state unchanged.
\<close>

theorem record_response_only_after_dispatch:
  "(RecordResponse u t \<in> set (pipeline_events col cfg dflt data) \<longrightarrow>
      \<not> dry_run (testing cfg) \<and>
      (\<exists>p. SendChat p \<in> set (pipeline_events col cfg dflt data)) \<and>
      (\<exists>f. filter_message col data = Some f \<and> u = username f \<and> t = check_triggers col f \<and>
           triggered (check_triggers col f) \<and>
           allowed (check_rate_limit col (username f) (check_triggers col f) (rank_of f)))) \<and>
   (pipeline_events col cfg dflt data = pre @ RecordResponse u t # post \<longrightarrow>
      (\<exists>p. SendChat p \<in> set pre) \<and> (\<forall>p. SendChat p \<notin> set post) \<and>
      (\<forall>u' t'. RecordResponse u' t' \<notin> set pre \<and> RecordResponse u' t' \<notin> set post)) \<and>
   (dry_run (testing cfg) \<longrightarrow>
      RecordResponse u t \<notin> set (pipeline_events col cfg dflt data) \<and>
      rate_limiter_after commit (pipeline_events col cfg dflt data) s = s)"
  using record_needs_dispatch [of u t col cfg dflt data]
        record_follows_dispatch [of col cfg dflt data pre u t post]
        no_record_in_dry_run [of cfg _ _ col dflt data]
        rate_limiter_after_no_record [of "pipeline_events col cfg dflt data" commit s]
  by blast

theorem record_response_only_after_dispatch_witness:
  "pipeline_events (example_collaborators (Response 200 (Some (chat_completion (JStr ''Hi there'')))))
     example_config local_provider ()
     = [LogTriggered (Some ''mention'') (Some ''cynthia'') ''bob'',
        LlmLog (ResponseGenerated ''local'' 8), SendChat ''Hi there'', LogSentPart 1 1]
       @ RecordResponse ''bob'' mention_result
       # [LogResponse ''bob'' mention_result ''hey cynthia'' ''Hi there'' [''Hi there'']
            \<lparr> allowed = True, reason = ''allowed'', retry_after = 0 \<rparr> True] \<and>
   RecordResponse ''bob'' mention_result
     \<in> set (pipeline_events (example_collaborators (Response 200 (Some (chat_completion (JStr ''Hi there'')))))
              example_config local_provider ()) \<and>
   \<not> dry_run (testing example_config) \<and>
   (\<exists>p. SendChat p
     \<in> set (pipeline_events (example_collaborators (Response 200 (Some (chat_completion (JStr ''Hi there'')))))
              example_config local_provider ())) \<and>
   (\<exists>p. SendChat p
     \<in> set [LogTriggered (Some ''mention'') (Some ''cynthia'') ''bob'',
             LlmLog (ResponseGenerated ''local'' 8), SendChat ''Hi there'', LogSentPart 1 1]) \<and>
   dry_run (testing dry_run_config) \<and>
   RecordResponse ''bob'' mention_result
     \<notin> set (pipeline_events (example_collaborators (Response 200 (Some (chat_completion (JStr ''Hi there'')))))
              dry_run_config local_provider ()) \<and>
   rate_limiter_after (\<lambda>_ _ n. Suc n)
     (pipeline_events (example_collaborators (Response 200 (Some (chat_completion (JStr ''Hi there'')))))
        dry_run_config local_provider ()) (0::nat) = 0"
proof -
  let ?col = "example_collaborators (Response 200 (Some (chat_completion (JStr ''Hi there''))))"
  let ?pre = "[LogTriggered (Some ''mention'') (Some ''cynthia'') ''bob'',
               LlmLog (ResponseGenerated ''local'' 8), SendChat ''Hi there'', LogSentPart 1 1]"
  let ?post = "[LogResponse ''bob'' mention_result ''hey cynthia'' ''Hi there'' [''Hi there'']
                  \<lparr> allowed = True, reason = ''allowed'', retry_after = 0 \<rparr> True]"
  have run: "pipeline_events ?col example_config local_provider ()
               = ?pre @ RecordResponse ''bob'' mention_result # ?post"
    by code_simp
  have wet: "RecordResponse ''bob'' mention_result
               \<in> set (pipeline_events ?col example_config local_provider ())"
    by (simp add: run)
  have dry: "dry_run (testing dry_run_config)"
    by code_simp
  note wet_case = record_response_only_after_dispatch
      [of "''bob''" mention_result ?col example_config local_provider "()" ?pre ?post
          "\<lambda>_ _ n. Suc n" "0::nat"]
  note dry_case = record_response_only_after_dispatch
      [of "''bob''" mention_result ?col dry_run_config local_provider "()" ?pre ?post
          "\<lambda>_ _ n. Suc n" "0::nat"]
  from wet_case wet have unordered:
    "\<not> dry_run (testing example_config) \<and>
     (\<exists>p. SendChat p \<in> set (pipeline_events ?col example_config local_provider ()))"
    by blast
  from wet_case run have ordered: "\<exists>p. SendChat p \<in> set ?pre"
    by blast
  from dry_case dry have quiet:
    "RecordResponse ''bob'' mention_result \<notin> set (pipeline_events ?col dry_run_config local_provider ()) \<and>
     rate_limiter_after (\<lambda>_ _ n. Suc n) (pipeline_events ?col dry_run_config local_provider ()) (0::nat) = 0"
    by blast
  from run wet dry unordered ordered quiet show ?thesis by blast
qed

section \<open>Theorems: LLM manager\<close>

lemma generate_response_on_failure:
  assumes "http dflt sp up = ClientError \<or> http dflt sp up = TimeoutError \<or>
           http dflt sp up = OtherException \<or>
           (\<exists>st. http dflt sp up = ContentTypeRefused st) \<or>
           (\<exists>st body. http dflt sp up = Response st body \<and>
              (st \<noteq> 200 \<or> body = None \<or>
               (\<exists>d. body = Some d \<and> (extract_content d = Inr None \<or> (\<exists>e. extract_content d = Inl e)))))"
  shows "snd (generate_response cfg dflt http sp up None) = None \<and>
         fst (generate_response cfg dflt http sp up None) \<noteq> []"
  using assms unfolding generate_response_def
  by (auto split: http_outcome.splits option.splits sum.splits)

lemma pipeline_stops_without_response:
  assumes "filter_message col data = Some f"
      and "triggered (check_triggers col f)"
      and "allowed (check_rate_limit col (username f) (check_triggers col f) (rank_of f))"
      and "falsy (snd (generate_response cfg dflt (llm_http col) (build_system_prompt cfg)
                    (build_user_prompt (username f) (cleaned_message (check_triggers col f))
                       (result_context (check_triggers col f))) None))"
  shows "pipeline_status col cfg dflt data = Completed \<and>
         LogError ''LLM failed to generate response'' \<in> set (pipeline_events col cfg dflt data) \<and>
         SendChat p \<notin> set (pipeline_events col cfg dflt data) \<and>
         RecordResponse u t \<notin> set (pipeline_events col cfg dflt data)"
  using assms
  unfolding pipeline_status_def pipeline_events_def handle_chat_message_def rank_of_def
            Let_def case_prod_beta
  by auto

text \<open>
  Claim C5 (every external generation failure, a malformed response body among them,
  is recovered locally: \<open>generate_response\<close> returns \<open>None\<close> and the pipeline stops
  without raising). The code returns whatever value stands at
  \<open>choices[0].message.content\<close> as long as it has a length. For the body
  \<open>{"choices": [{"message": {"content": ["x"]}}]}\<close> with status 200,
  \<open>generate_response\<close> returns the list \<open>["x"]\<close>, and the pipeline raises
  \<open>AttributeError\<close> when the formatter calls \<open>strip\<close> on it.
\<close>

theorem list_content_is_returned_and_pipeline_raises:
  "generate_response example_config local_provider
     (\<lambda>_ _ _. Response 200 (Some (chat_completion (JList [JStr ''x'']))))
     (build_system_prompt example_config) (build_user_prompt ''bob'' ''hey'' None) None
     = ([ResponseGenerated ''local'' 1], Some (JList [JStr ''x''])) \<and>
   pipeline_status (example_collaborators (Response 200 (Some (chat_completion (JList [JStr ''x''])))))
     example_config local_provider () = Raised AttributeError"
  by code_simp

section \<open>Theorems: configuration validation\<close>








section \<open>Theorems: context manager\<close>

lemma last_n_length: "length (last_n n xs) \<le> n"
  by (simp add: last_n_def)

lemma last_n_snoc: "last_n n (last_n n xs @ [x]) = last_n n (xs @ [x])"
proof (cases "length xs \<le> n")
  case True
  then show ?thesis by (simp add: last_n_def)
next
  case False
  then have shift: "Suc (length xs) - n = Suc (length xs - n)" by simp
  from False have kept: "length xs - (length xs - n) = n" by simp
  from False show ?thesis
    by (cases n) (simp_all add: last_n_def shift kept Suc_diff_Suc not_le)
qed

lemma run_operations_snoc:
  "run_operations (ops @ [x]) cm = apply_operation (run_operations ops cm) x"
  by (simp add: run_operations_def)

lemma run_operations_settings:
  "bot_name (run_operations ops cm) = bot_name cm \<and>
   capacity (run_operations ops cm) = capacity cm"
proof (induction ops rule: rev_induct)
  case Nil
  show ?case by (simp add: run_operations_def)
next
  case (snoc x xs)
  then show ?case
    by (cases x)
       (simp_all add: run_operations_snoc record_chat_def clear_history_def on_media_change_def)
qed

lemma history_is_last_added:
  "chat_history (run_operations ops (new_context_manager name cap mt))
     = last_n cap (entries_added name ops)"
proof (induction ops rule: rev_induct)
  case Nil
  show ?case
    by (simp add: run_operations_def entries_added_def new_context_manager_def last_n_def)
next
  case (snoc x xs)
  have settings:
    "bot_name (run_operations xs (new_context_manager name cap mt)) = name"
    "capacity (run_operations xs (new_context_manager name cap mt)) = cap"
    using run_operations_settings [of xs "new_context_manager name cap mt"]
    by (simp_all add: new_context_manager_def)
  show ?case
    using snoc settings
    by (cases x)
       (simp_all add: run_operations_snoc entries_added_def record_chat_def clear_history_def
                      on_media_change_def last_n_snoc, simp add: last_n_def)
qed

text \<open>
  Claim C4 (for every sequence of Context Manager operations the chat-history buffer
  never exceeds the configured capacity, and it holds exactly the most recently added
  entries in insertion order; capacity 5 with 10 insertions leaves entries 6 to 10). For
  every sequence of \<open>record_chat\<close>, \<open>clear_history\<close>, \<open>snapshot\<close> and media-change
  operations on a new manager, the buffer is at most \<open>cap\<close> long and equals the last
  \<open>cap\<close> of the entries added since the last clear, in their order of insertion.
\<close>

theorem history_bounded_and_most_recent:
  "length (chat_history (run_operations ops (new_context_manager name cap mt))) \<le> cap \<and>
   chat_history (run_operations ops (new_context_manager name cap mt))
     = last_n cap (entries_added name ops)"
  by (simp add: history_is_last_added last_n_length)

theorem history_bounded_and_most_recent_witness:
  "length (chat_history (run_operations (map numbered_message [0..<10])
             (new_context_manager ''CynthiaRothbot'' 5 200))) \<le> 5 \<and>
   map entry_message (chat_history (run_operations (map numbered_message [0..<10])
             (new_context_manager ''CynthiaRothbot'' 5 200)))
     = [''Message 5'', ''Message 6'', ''Message 7'', ''Message 8'', ''Message 9'']"
proof -
  have added:
    "map entry_message (last_n 5 (entries_added ''CynthiaRothbot'' (map numbered_message [0..<10])))
       = [''Message 5'', ''Message 6'', ''Message 7'', ''Message 8'', ''Message 9'']"
    by code_simp
  note inst = history_bounded_and_most_recent
      [of "map numbered_message [0..<10]" "''CynthiaRothbot''" 5 200]
  from inst have len:
    "length (chat_history (run_operations (map numbered_message [0..<10])
               (new_context_manager ''CynthiaRothbot'' 5 200))) \<le> 5"
    by (rule conjunct1)
  from inst have eq:
    "chat_history (run_operations (map numbered_message [0..<10])
               (new_context_manager ''CynthiaRothbot'' 5 200))
       = last_n 5 (entries_added ''CynthiaRothbot'' (map numbered_message [0..<10]))"
    by (rule conjunct2)
  show ?thesis
  proof (rule conjI)
    show "length (chat_history (run_operations (map numbered_message [0..<10])
               (new_context_manager ''CynthiaRothbot'' 5 200))) \<le> 5"
      by (rule len)
    show "map entry_message (chat_history (run_operations (map numbered_message [0..<10])
               (new_context_manager ''CynthiaRothbot'' 5 200)))
            = [''Message 5'', ''Message 6'', ''Message 7'', ''Message 8'', ''Message 9'']"
      by (simp only: eq added)
  qed
qed

end
